theory Spec2Isabelle
  imports Main "HOL-Library.Word" "HOL-Library.Signed_Division"
begin

section \<open>Go values used by \<open>path_certs.go\<close>\<close>

text \<open>
  The handlers of \<open>path_certs.go\<close> are embedded as HOL functions. Go's \<open>int\<close> is taken
  at its width on the 64-bit platforms (amd64, arm64), and \<open>time.Duration\<close> is an
  \<open>int64\<close> counting nanoseconds: both are \<open>64 word\<close>, so that \<open>*\<close> wraps around as Go's
  multiplication does, and comparisons read the word as two's complement (\<open><s\<close>).
\<close>

type_synonym go_int = "64 word"
type_synonym Duration = "64 word"

definition Second :: Duration where
  "Second = 1000000000"

text \<open>Go's \<open>/\<close> on signed integers truncates towards zero.\<close>

definition Duration_div :: "Duration \<Rightarrow> Duration \<Rightarrow> Duration" where
  "Duration_div a b = word_of_int (sint a sdiv sint b)"

text \<open>
  \<open>fmt.Sprintf\<close> with the verb \<open>%d\<close>: the decimal digits of a signed integer, with a
  leading minus sign for a negative one.
\<close>

definition digit_char :: "nat \<Rightarrow> char" where
  "digit_char n = char_of (48 + n)"

fun digits :: "nat \<Rightarrow> string" where
  "digits n = (if n < 10 then [digit_char n] else digits (n div 10) @ [digit_char (n mod 10)])"

declare digits.simps [simp del]

definition FormatInt :: "int \<Rightarrow> string" where
  "FormatInt i = (if i < 0 then CHR ''-'' # digits (nat (- i)) else digits (nat i))"

text \<open>
  \<open>strings.ToLower\<close> on ASCII text. The route pattern of \<open>pathCerts\<close>
  (\<open>framework.GenericNameRegex\<close>) admits only names made of the ASCII word characters,
  \<open>-\<close> and \<open>.\<close>, and on those Go's function maps \<open>A\<close>..\<open>Z\<close> to \<open>a\<close>..\<open>z\<close> and keeps every
  other byte.
\<close>

definition toLower_byte :: "char \<Rightarrow> char" where
  "toLower_byte c =
     (if 65 \<le> (of_char c :: nat) \<and> (of_char c :: nat) \<le> 90
      then char_of ((of_char c :: nat) + 32) else c)"

definition ToLower :: "string \<Rightarrow> string" where
  "ToLower s = map toLower_byte s"

section \<open>Certificates\<close>

text \<open>
  The two fields of \<open>x509.Certificate\<close> that the handler reads. \<open>crypto/x509\<close> builds
  \<open>ExtKeyUsage\<close> by \<open>append\<close> only, so the slice is either \<open>nil\<close> or non-empty: the empty
  list stands for the \<open>nil\<close> slice.
\<close>

datatype ExtKeyUsage =
    ExtKeyUsageAny
  | ExtKeyUsageServerAuth
  | ExtKeyUsageClientAuth
  | ExtKeyUsageCodeSigning
  | ExtKeyUsageEmailProtection
  | ExtKeyUsageIPSECEndSystem
  | ExtKeyUsageIPSECTunnel
  | ExtKeyUsageIPSECUser
  | ExtKeyUsageTimeStamping
  | ExtKeyUsageOCSPSigning
  | ExtKeyUsageMicrosoftServerGatedCrypto
  | ExtKeyUsageNetscapeServerGatedCrypto

record x509_Certificate =
  IsCA :: bool
  ExtKeyUsage :: "ExtKeyUsage list"

section \<open>Trust entries, storage and responses\<close>

record CertEntry =
  Name :: string
  Certificate :: string
  DisplayName :: string
  Policies :: "string list"
  TTL :: Duration
  MaxTTL :: Duration

text \<open>Go \<open>error\<close> values: only the storage layer and the JSON codec produce them.\<close>

datatype error = StorageFailure string | JSONFailure string

text \<open>
  The value of a \<open>logical.StorageEntry\<close>: either the JSON encoding of a \<open>CertEntry\<close>,
  which \<open>DecodeJSON\<close> reads back, or bytes that do not decode.
\<close>

datatype json_bytes = JSON CertEntry | Malformed string

record StorageEntry =
  Key :: string
  Value :: json_bytes

definition StorageEntryJSON :: "string \<Rightarrow> CertEntry \<Rightarrow> error + StorageEntry" where
  "StorageEntryJSON k v = Inr \<lparr>Key = k, Value = JSON v\<rparr>"

definition DecodeJSON :: "StorageEntry \<Rightarrow> error + CertEntry" where
  "DecodeJSON e = (case Value e of JSON v \<Rightarrow> Inr v | Malformed t \<Rightarrow> Inl (JSONFailure t))"

text \<open>
  \<open>logical.Storage\<close>: a key-value store. While the backing store is out of order
  (\<open>unavailable\<close> holds the error it reports) every call returns that error and changes
  nothing.
\<close>

record Storage =
  entries :: "string \<rightharpoonup> json_bytes"
  unavailable :: "error option"

definition Storage_Get :: "Storage \<Rightarrow> string \<Rightarrow> error + StorageEntry option" where
  "Storage_Get s k =
     (case unavailable s of
        Some err \<Rightarrow> Inl err
      | None \<Rightarrow> (case entries s k of
                  None \<Rightarrow> Inr None
                | Some v \<Rightarrow> Inr (Some \<lparr>Key = k, Value = v\<rparr>)))"

definition Storage_Put :: "Storage \<Rightarrow> StorageEntry \<Rightarrow> error option \<times> Storage" where
  "Storage_Put s e =
     (case unavailable s of
        Some err \<Rightarrow> (Some err, s)
      | None \<Rightarrow> (None, s\<lparr>entries := (entries s)(Key e \<mapsto> Value e)\<rparr>))"

definition Storage_Delete :: "Storage \<Rightarrow> string \<Rightarrow> error option \<times> Storage" where
  "Storage_Delete s k =
     (case unavailable s of
        Some err \<Rightarrow> (Some err, s)
      | None \<Rightarrow> (None, s\<lparr>entries := (entries s)(k := None)\<rparr>))"

text \<open>The values that the handlers put into \<open>Response.Data\<close>.\<close>

datatype data_value = String string | Strings "string list" | Seconds Duration

record Response =
  Data :: "(string \<times> data_value) list"
  Warnings :: "string list"

definition AddWarning :: "Response \<Rightarrow> string \<Rightarrow> Response" where
  "AddWarning r w = r\<lparr>Warnings := Warnings r @ [w]\<rparr>"

definition ErrorResponse :: "string \<Rightarrow> Response" where
  "ErrorResponse text = \<lparr>Data = [(''error'', String text)], Warnings = []\<rparr>"

definition IsError :: "Response \<Rightarrow> bool" where
  "IsError r = (length (Data r) = 1 \<and> map_of (Data r) ''error'' \<noteq> None)"

text \<open>
  What a handler takes from outside this file: the two system ceilings of
  \<open>b.System()\<close>, \<open>parsePEM\<close> and \<open>policyutil.ParsePolicies\<close>.
\<close>

record backend =
  DefaultLeaseTTL :: Duration
  MaxLeaseTTL :: Duration
  parsePEM :: "string \<Rightarrow> x509_Certificate list"
  ParsePolicies :: "string list \<Rightarrow> string list"

text \<open>The request fields of \<open>framework.FieldData\<close>, as \<open>d.Get\<close> returns them.\<close>

record FieldData =
  d_name :: string
  d_certificate :: string
  d_display_name :: string
  d_policies :: "string list"
  d_ttl :: go_int
  d_max_ttl :: go_int

section \<open>The handlers\<close>

definition Cert :: "Storage \<Rightarrow> string \<Rightarrow> error + CertEntry option" where
  "Cert s n =
     (case Storage_Get s (''cert/'' @ ToLower n) of
        Inl err \<Rightarrow> Inl err
      | Inr None \<Rightarrow> Inr None
      | Inr (Some entry) \<Rightarrow>
          (case DecodeJSON entry of
             Inl err \<Rightarrow> Inl err
           | Inr result \<Rightarrow> Inr (Some result)))"

definition pathCertDelete :: "Storage \<Rightarrow> FieldData \<Rightarrow> (error + Response option) \<times> Storage" where
  "pathCertDelete s d =
     (case Storage_Delete s (''cert/'' @ ToLower (d_name d)) of
        (Some err, s') \<Rightarrow> (Inl err, s')
      | (None, s') \<Rightarrow> (Inr None, s'))"

definition pathCertRead :: "Storage \<Rightarrow> FieldData \<Rightarrow> error + Response option" where
  "pathCertRead s d =
     (case Cert s (ToLower (d_name d)) of
        Inl err \<Rightarrow> Inl err
      | Inr None \<Rightarrow> Inr None
      | Inr (Some cert) \<Rightarrow>
          Inr (Some \<lparr>Data =
                 [(''certificate'', String (Certificate cert)),
                  (''display_name'', String (DisplayName cert)),
                  (''policies'', Strings (Policies cert)),
                  (''ttl'', Seconds (Duration_div (TTL cert) Second)),
                  (''max_ttl'', Seconds (Duration_div (MaxTTL cert) Second))],
               Warnings = []\<rparr>))"

text \<open>The loop over \<open>parsed[0].ExtKeyUsage\<close>, which stops at the first match.\<close>

fun clientAuth :: "ExtKeyUsage list \<Rightarrow> bool" where
  "clientAuth [] = False"
| "clientAuth (usage # rest) =
     (if usage = ExtKeyUsageClientAuth \<or> usage = ExtKeyUsageAny then True
      else clientAuth rest)"

definition ttl_warning :: "Duration \<Rightarrow> Duration \<Rightarrow> string" where
  "ttl_warning ttl systemDefaultTTL =
     ''Given ttl of '' @ FormatInt (sint (Duration_div ttl Second))
       @ '' seconds is greater than current mount/system default of ''
       @ FormatInt (sint (Duration_div systemDefaultTTL Second)) @ '' seconds''"

definition max_ttl_warning :: "Duration \<Rightarrow> Duration \<Rightarrow> string" where
  "max_ttl_warning maxTTL systemMaxTTL =
     ''Given max_ttl of '' @ FormatInt (sint (Duration_div maxTTL Second))
       @ '' seconds is greater than current mount/system default of ''
       @ FormatInt (sint (Duration_div systemMaxTTL Second)) @ '' seconds''"

definition pathCertWrite ::
  "backend \<Rightarrow> Storage \<Rightarrow> FieldData \<Rightarrow> (error + Response option) \<times> Storage" where
  "pathCertWrite b s d =
     (let name = ToLower (d_name d);
          certificate = d_certificate d;
          displayName = d_display_name d;
          policies = ParsePolicies b (d_policies d);
          resp = \<lparr>Data = [], Warnings = []\<rparr>;
          systemDefaultTTL = DefaultLeaseTTL b;
          ttl = d_ttl d * Second;
          resp = (if systemDefaultTTL <s ttl
                  then AddWarning resp (ttl_warning ttl systemDefaultTTL) else resp)
      in
      if ttl <s 0 then (Inr (Some (ErrorResponse ''ttl cannot be negative'')), s)
      else
        let systemMaxTTL = MaxLeaseTTL b;
            maxTTL = d_max_ttl d * Second;
            resp = (if systemMaxTTL <s maxTTL
                    then AddWarning resp (max_ttl_warning maxTTL systemMaxTTL) else resp)
        in
        if maxTTL <s 0 then (Inr (Some (ErrorResponse ''max_ttl cannot be negative'')), s)
        else if maxTTL \<noteq> 0 \<and> maxTTL <s ttl
        then (Inr (Some (ErrorResponse ''ttl should be shorter than max_ttl'')), s)
        else
          let displayName = (if displayName = [] then name else displayName) in
          (case parsePEM b certificate of
             [] \<Rightarrow> (Inr (Some (ErrorResponse ''failed to parse certificate'')), s)
           | first # others \<Rightarrow>
               if \<not> IsCA first \<and> ExtKeyUsage first \<noteq> [] \<and> \<not> clientAuth (ExtKeyUsage first)
               then (Inr (Some (ErrorResponse
                 ''non-CA certificates should have TLS client authentication set as an extended key usage'')), s)
               else
                 let certEntry = \<lparr>Name = name, Certificate = certificate,
                       DisplayName = displayName, Policies = policies,
                       TTL = ttl, MaxTTL = maxTTL\<rparr>
                 in
                 (case StorageEntryJSON (''cert/'' @ name) certEntry of
                    Inl err \<Rightarrow> (Inl err, s)
                  | Inr entry \<Rightarrow>
                      (case Storage_Put s entry of
                         (Some err, s') \<Rightarrow> (Inl err, s')
                       | (None, s') \<Rightarrow>
                           if length (Warnings resp) = 0 then (Inr None, s')
                           else (Inr (Some resp), s')))))"

section \<open>Vocabulary of the properties\<close>

text \<open>
  A call succeeded when it returned neither a Go error nor an error response
  (\<open>Response.IsError\<close>).
\<close>

definition is_success :: "error + Response option \<Rightarrow> bool" where
  "is_success r =
     (case r of Inl err \<Rightarrow> False | Inr None \<Rightarrow> True | Inr (Some resp) \<Rightarrow> \<not> IsError resp)"

text \<open>
  The three TTL checks of \<open>pathCertWrite\<close> (lines 151, 162 and 166) all pass, on the
  durations the handler computes.
\<close>

definition ttl_checks_pass :: "FieldData \<Rightarrow> bool" where
  "ttl_checks_pass d =
     (\<not> d_ttl d * Second <s 0 \<and> \<not> d_max_ttl d * Second <s 0 \<and>
      \<not> (d_max_ttl d * Second \<noteq> 0 \<and> d_max_ttl d * Second <s d_ttl d * Second))"

section \<open>Example inputs\<close>

text \<open>
  A parser that knows three certificates: a CA, a leaf for client authentication, and a
  bundle whose leading leaf is for server authentication only. Every other text has no
  PEM block.
\<close>

definition example_parsePEM :: "string \<Rightarrow> x509_Certificate list" where
  "example_parsePEM pem =
     (if pem = ''ca'' then [\<lparr>IsCA = True, ExtKeyUsage = [ExtKeyUsageServerAuth]\<rparr>]
      else if pem = ''client''
        then [\<lparr>IsCA = False, ExtKeyUsage = [ExtKeyUsageServerAuth, ExtKeyUsageClientAuth]\<rparr>]
      else if pem = ''server''
        then [\<lparr>IsCA = False, ExtKeyUsage = [ExtKeyUsageServerAuth]\<rparr>,
              \<lparr>IsCA = True, ExtKeyUsage = []\<rparr>]
      else [])"

text \<open>System ceilings of one hour and one day.\<close>

definition example_backend :: backend where
  "example_backend =
     \<lparr>DefaultLeaseTTL = 3600000000000, MaxLeaseTTL = 86400000000000,
      parsePEM = example_parsePEM, ParsePolicies = (\<lambda>ps. ps)\<rparr>"

definition empty_storage :: Storage where
  "empty_storage = \<lparr>entries = Map.empty, unavailable = None\<rparr>"

definition example_request :: FieldData where
  "example_request =
     \<lparr>d_name = ''Example'', d_certificate = ''client'', d_display_name = [],
      d_policies = [''default''], d_ttl = 7200, d_max_ttl = 0\<rparr>"

section \<open>Arithmetic of seconds and durations\<close>

lemma sint_seconds:
  assumes "- 9223372036 \<le> sint n" "sint n \<le> 9223372036"
  shows "sint ((n :: 64 word) * Second) = sint n * 1000000000"
proof -
  have "sint (n * Second) = signed_take_bit 63 (sint n * 1000000000)"
    by (simp add: Second_def sint_word_ariths)
  also have "\<dots> = sint n * 1000000000"
    using assms by (intro signed_take_bit_int_eq_self) auto
  finally show ?thesis .
qed

lemma sdiv_mult_cancel: "(x * 1000000000) sdiv 1000000000 = (x :: int)"
  by (simp add: signed_divide_int_def abs_mult sgn_mult mult_sgn_abs)

lemma Duration_div_seconds:
  assumes "- 9223372036 \<le> sint n" "sint n \<le> 9223372036"
  shows "Duration_div ((n :: 64 word) * Second) Second = n"
proof -
  have "sint Second = 1000000000" by (simp add: Second_def)
  then show ?thesis
    using assms by (simp add: Duration_div_def sint_seconds sdiv_mult_cancel)
qed

section \<open>Evaluation at the example inputs\<close>

lemma ToLower_idem: "ToLower (ToLower n) = ToLower n"
  by (simp add: ToLower_def toLower_byte_def)

lemmas example_defs = example_request_def example_backend_def empty_storage_def
  example_parsePEM_def

lemma ToLower_Example: "ToLower ''Example'' = ''example''"
  by (simp add: ToLower_def toLower_byte_def char_of_eq_iff)

lemma ToLower_EXAMPLE: "ToLower ''EXAMPLE'' = ''example''"
  by (simp add: ToLower_def toLower_byte_def char_of_eq_iff)

lemma ToLower_example: "ToLower ''example'' = ''example''"
  by (simp add: ToLower_def toLower_byte_def char_of_eq_iff)

lemma FormatInt_examples:
  "FormatInt 9223372036 = ''9223372036''" "FormatInt 3600 = ''3600''"
  "FormatInt 7200 = ''7200''" "FormatInt 5 = ''5''"
  by (simp_all add: FormatInt_def digits.simps digit_char_def char_of_eq_iff)

lemmas eval_defs = Second_def word_sless_alt ttl_warning_def max_ttl_warning_def
  Duration_div_def signed_divide_int_def ToLower_Example ToLower_EXAMPLE ToLower_example
  FormatInt_examples

lemma wrapped_ttl: "(- 9223372037000000000 :: Duration) = 9223372036709551616"
  by simp

section \<open>The branches of \<open>pathCertWrite\<close>\<close>

lemma clientAuth_iff:
  "clientAuth us \<longleftrightarrow> ExtKeyUsageClientAuth \<in> set us \<or> ExtKeyUsageAny \<in> set us"
  by (induction us) auto

lemma IsError_ErrorResponse [simp]: "IsError (ErrorResponse m)"
  by (simp add: IsError_def ErrorResponse_def)

lemma Warnings_ErrorResponse [simp]: "Warnings (ErrorResponse m) = []"
  by (simp add: ErrorResponse_def)

lemma ErrorResponse_inject [simp]: "ErrorResponse m = ErrorResponse m' \<longleftrightarrow> m = m'"
  by (simp add: ErrorResponse_def)

lemma write_unfold:
  "pathCertWrite b s d =
    (let ttl = d_ttl d * Second; maxTTL = d_max_ttl d * Second in
     if ttl <s 0 then (Inr (Some (ErrorResponse ''ttl cannot be negative'')), s)
     else if maxTTL <s 0 then (Inr (Some (ErrorResponse ''max_ttl cannot be negative'')), s)
     else if maxTTL \<noteq> 0 \<and> maxTTL <s ttl
       then (Inr (Some (ErrorResponse ''ttl should be shorter than max_ttl'')), s)
     else (case parsePEM b (d_certificate d) of
        [] \<Rightarrow> (Inr (Some (ErrorResponse ''failed to parse certificate'')), s)
      | first # others \<Rightarrow>
         if \<not> IsCA first \<and> ExtKeyUsage first \<noteq> [] \<and> \<not> clientAuth (ExtKeyUsage first)
         then (Inr (Some (ErrorResponse
           ''non-CA certificates should have TLS client authentication set as an extended key usage'')), s)
         else (case unavailable s of
            Some err \<Rightarrow> (Inl err, s)
          | None \<Rightarrow>
             (let ws = (if DefaultLeaseTTL b <s ttl
                        then [ttl_warning ttl (DefaultLeaseTTL b)] else []) @
                       (if MaxLeaseTTL b <s maxTTL
                        then [max_ttl_warning maxTTL (MaxLeaseTTL b)] else [])
              in (if ws = [] then Inr None else Inr (Some \<lparr>Data = [], Warnings = ws\<rparr>),
                  s\<lparr>entries := (entries s)(''cert/'' @ ToLower (d_name d) \<mapsto>
                    JSON \<lparr>Name = ToLower (d_name d), Certificate = d_certificate d,
                      DisplayName = (if d_display_name d = [] then ToLower (d_name d)
                                     else d_display_name d),
                      Policies = ParsePolicies b (d_policies d),
                      TTL = ttl, MaxTTL = maxTTL\<rparr>)\<rparr>)))))"
  by (simp add: pathCertWrite_def Let_def StorageEntryJSON_def Storage_Put_def AddWarning_def
      split: list.split option.split)

lemma write_ttl_negative:
  "d_ttl d * Second <s 0 \<Longrightarrow>
   pathCertWrite b s d = (Inr (Some (ErrorResponse ''ttl cannot be negative'')), s)"
  by (simp add: pathCertWrite_def Let_def)

lemma write_max_ttl_negative:
  "\<not> d_ttl d * Second <s 0 \<Longrightarrow> d_max_ttl d * Second <s 0 \<Longrightarrow>
   pathCertWrite b s d = (Inr (Some (ErrorResponse ''max_ttl cannot be negative'')), s)"
  by (simp add: pathCertWrite_def Let_def)

lemma write_ttl_over_max_ttl:
  "\<not> d_ttl d * Second <s 0 \<Longrightarrow> \<not> d_max_ttl d * Second <s 0 \<Longrightarrow>
   d_max_ttl d * Second \<noteq> 0 \<Longrightarrow> d_max_ttl d * Second <s d_ttl d * Second \<Longrightarrow>
   pathCertWrite b s d = (Inr (Some (ErrorResponse ''ttl should be shorter than max_ttl'')), s)"
  by (simp add: pathCertWrite_def Let_def)

lemma write_parse_failure:
  "ttl_checks_pass d \<Longrightarrow> parsePEM b (d_certificate d) = [] \<Longrightarrow>
   pathCertWrite b s d = (Inr (Some (ErrorResponse ''failed to parse certificate'')), s)"
  by (simp add: pathCertWrite_def Let_def ttl_checks_pass_def)

lemma write_key_usage_failure:
  "ttl_checks_pass d \<Longrightarrow> parsePEM b (d_certificate d) = first # others \<Longrightarrow>
   \<not> IsCA first \<Longrightarrow> ExtKeyUsage first \<noteq> [] \<Longrightarrow> \<not> clientAuth (ExtKeyUsage first) \<Longrightarrow>
   pathCertWrite b s d = (Inr (Some (ErrorResponse
     ''non-CA certificates should have TLS client authentication set as an extended key usage'')), s)"
  by (simp add: pathCertWrite_def Let_def ttl_checks_pass_def)

lemma write_stored:
  assumes "ttl_checks_pass d" "parsePEM b (d_certificate d) = first # others"
    "IsCA first \<or> ExtKeyUsage first = [] \<or> clientAuth (ExtKeyUsage first)"
    "unavailable s = None"
  shows "pathCertWrite b s d =
    (let ws = (if DefaultLeaseTTL b <s d_ttl d * Second
               then [ttl_warning (d_ttl d * Second) (DefaultLeaseTTL b)] else []) @
              (if MaxLeaseTTL b <s d_max_ttl d * Second
               then [max_ttl_warning (d_max_ttl d * Second) (MaxLeaseTTL b)] else [])
     in (if ws = [] then Inr None else Inr (Some \<lparr>Data = [], Warnings = ws\<rparr>),
         s\<lparr>entries := (entries s)(''cert/'' @ ToLower (d_name d) \<mapsto>
            JSON \<lparr>Name = ToLower (d_name d), Certificate = d_certificate d,
              DisplayName = (if d_display_name d = [] then ToLower (d_name d)
                             else d_display_name d),
              Policies = ParsePolicies b (d_policies d),
              TTL = d_ttl d * Second, MaxTTL = d_max_ttl d * Second\<rparr>)\<rparr>))"
proof -
  have "\<not> (\<not> IsCA first \<and> ExtKeyUsage first \<noteq> [] \<and> \<not> clientAuth (ExtKeyUsage first))"
    using assms(3) by blast
  moreover have "\<not> d_ttl d * Second <s 0" "\<not> d_max_ttl d * Second <s 0"
    "\<not> (d_max_ttl d * Second \<noteq> 0 \<and> d_max_ttl d * Second <s d_ttl d * Second)"
    using assms(1) by (simp_all add: ttl_checks_pass_def)
  ultimately show ?thesis
    unfolding write_unfold Let_def assms(2) assms(4) by (simp only: if_False list.case option.case)
qed

lemma write_unavailable:
  assumes "ttl_checks_pass d" "parsePEM b (d_certificate d) = first # others"
    "IsCA first \<or> ExtKeyUsage first = [] \<or> clientAuth (ExtKeyUsage first)"
    "unavailable s = Some err"
  shows "pathCertWrite b s d = (Inl err, s)"
proof -
  have "\<not> (\<not> IsCA first \<and> ExtKeyUsage first \<noteq> [] \<and> \<not> clientAuth (ExtKeyUsage first))"
    using assms(3) by blast
  moreover have "\<not> d_ttl d * Second <s 0" "\<not> d_max_ttl d * Second <s 0"
    "\<not> (d_max_ttl d * Second \<noteq> 0 \<and> d_max_ttl d * Second <s d_ttl d * Second)"
    using assms(1) by (simp_all add: ttl_checks_pass_def)
  ultimately show ?thesis
    unfolding write_unfold Let_def assms(2) assms(4) by (simp only: if_False list.case option.case)
qed

lemma write_success_cases:
  assumes "is_success (fst (pathCertWrite b s d))"
  obtains first others where "ttl_checks_pass d" "parsePEM b (d_certificate d) = first # others"
    "IsCA first \<or> ExtKeyUsage first = [] \<or> clientAuth (ExtKeyUsage first)"
    "unavailable s = None"
proof (cases "ttl_checks_pass d")
  case False
  then have "\<exists>m. fst (pathCertWrite b s d) = Inr (Some (ErrorResponse m))"
    by (auto simp: write_unfold Let_def ttl_checks_pass_def)
  with assms show ?thesis by (auto simp: is_success_def)
next
  case checks: True
  show ?thesis
  proof (cases "parsePEM b (d_certificate d)")
    case Nil
    with checks assms show ?thesis
      by (simp add: write_parse_failure is_success_def)
  next
    case (Cons first others)
    show ?thesis
    proof (cases "IsCA first \<or> ExtKeyUsage first = [] \<or> clientAuth (ExtKeyUsage first)")
      case False
      with checks Cons assms show ?thesis
        by (simp add: write_key_usage_failure is_success_def)
    next
      case usage: True
      show ?thesis
      proof (cases "unavailable s")
        case None
        with checks Cons usage that show ?thesis by blast
      next
        case (Some err)
        with checks Cons usage assms show ?thesis
          by (simp add: write_unavailable is_success_def)
      qed
    qed
  qed
qed

lemma write_success_stored:
  assumes "is_success (fst (pathCertWrite b s d))"
  shows "unavailable s = None \<and> snd (pathCertWrite b s d) =
         s\<lparr>entries := (entries s)(''cert/'' @ ToLower (d_name d) \<mapsto>
            JSON \<lparr>Name = ToLower (d_name d), Certificate = d_certificate d,
              DisplayName = (if d_display_name d = [] then ToLower (d_name d)
                             else d_display_name d),
              Policies = ParsePolicies b (d_policies d),
              TTL = d_ttl d * Second, MaxTTL = d_max_ttl d * Second\<rparr>)\<rparr>"
  using assms
proof (rule write_success_cases)
  fix first others
  assume "ttl_checks_pass d" "parsePEM b (d_certificate d) = first # others"
    "IsCA first \<or> ExtKeyUsage first = [] \<or> clientAuth (ExtKeyUsage first)"
    "unavailable s = None"
  then show ?thesis
    by (simp add: write_stored Let_def)
qed

lemma write_changes_nothing_or_stores:
  "snd (pathCertWrite b s d) = s \<or> is_success (fst (pathCertWrite b s d))"
  by (auto simp: write_unfold Let_def is_success_def IsError_def split: list.split option.split)

section \<open>The claims\<close>

text \<open>
  C1. The key-usage rule of \<open>Write\<close> looks at the first parsed certificate only. Once
  the TTL checks have passed and the certificate text has parsed, \<open>Write\<close> answers with
  the error "non-CA certificates should have TLS client authentication set as an extended
  key usage" exactly when that first certificate is not a CA, declares at least one
  extended key usage, and declares neither \<open>ClientAuth\<close> nor \<open>Any\<close>. A CA certificate, a
  leaf with no declared usage, and a leaf with \<open>ClientAuth\<close> or \<open>Any\<close> are stored (while
  the storage works), and the certificates after the first never change the outcome.
\<close>

theorem key_usage_rule:
  assumes "ttl_checks_pass d" and "parsePEM b (d_certificate d) = first # others"
  shows "((fst (pathCertWrite b s d) = Inr (Some (ErrorResponse
            ''non-CA certificates should have TLS client authentication set as an extended key usage'')))
          = (\<not> IsCA first \<and> ExtKeyUsage first \<noteq> [] \<and>
             ExtKeyUsageClientAuth \<notin> set (ExtKeyUsage first) \<and>
             ExtKeyUsageAny \<notin> set (ExtKeyUsage first)))
       \<and> (unavailable s = None \<and>
            (IsCA first \<or> ExtKeyUsage first = [] \<or>
             ExtKeyUsageClientAuth \<in> set (ExtKeyUsage first) \<or>
             ExtKeyUsageAny \<in> set (ExtKeyUsage first)) \<longrightarrow>
            is_success (fst (pathCertWrite b s d)) \<and>
            (\<exists>e. entries (snd (pathCertWrite b s d)) (''cert/'' @ ToLower (d_name d))
                   = Some (JSON e) \<and> Certificate e = d_certificate d))
       \<and> pathCertWrite (b\<lparr>parsePEM := (\<lambda>pem. [first])\<rparr>) s d = pathCertWrite b s d"
proof (cases "IsCA first \<or> ExtKeyUsage first = [] \<or> clientAuth (ExtKeyUsage first)")
  case False
  then have fails: "\<not> IsCA first" "ExtKeyUsage first \<noteq> []" "\<not> clientAuth (ExtKeyUsage first)"
    by auto
  have "pathCertWrite b s d = (Inr (Some (ErrorResponse
      ''non-CA certificates should have TLS client authentication set as an extended key usage'')), s)"
    using assms fails by (rule write_key_usage_failure)
  moreover have "pathCertWrite (b\<lparr>parsePEM := (\<lambda>pem. [first])\<rparr>) s d = (Inr (Some (ErrorResponse
      ''non-CA certificates should have TLS client authentication set as an extended key usage'')), s)"
    using assms(1) fails by (intro write_key_usage_failure [where others = "[]"]) simp_all
  ultimately show ?thesis
    using fails by (simp add: clientAuth_iff)
next
  case usage: True
  show ?thesis
  proof (cases "unavailable s")
    case None
    have "pathCertWrite (b\<lparr>parsePEM := (\<lambda>pem. [first])\<rparr>) s d = pathCertWrite b s d"
      using assms usage None
      by (simp add: write_stored [where first = first and others = others]
          write_stored [where first = first and others = "[]"])
    moreover have "is_success (fst (pathCertWrite b s d))"
      using assms usage None
      by (simp add: write_stored [where first = first and others = others] Let_def
          is_success_def IsError_def)
    moreover have "fst (pathCertWrite b s d) \<noteq> Inr (Some (ErrorResponse
      ''non-CA certificates should have TLS client authentication set as an extended key usage''))"
      using \<open>is_success (fst (pathCertWrite b s d))\<close> by (auto simp: is_success_def)
    moreover have "\<exists>e. entries (snd (pathCertWrite b s d)) (''cert/'' @ ToLower (d_name d))
                   = Some (JSON e) \<and> Certificate e = d_certificate d"
      using assms usage None
      by (simp add: write_stored [where first = first and others = others] Let_def)
    ultimately show ?thesis
      using usage by (auto simp: clientAuth_iff)
  next
    case (Some err)
    have "pathCertWrite (b\<lparr>parsePEM := (\<lambda>pem. [first])\<rparr>) s d = pathCertWrite b s d"
      using assms usage Some
      by (simp add: write_unavailable [where first = first and others = others]
          write_unavailable [where first = first and others = "[]"])
    moreover have "fst (pathCertWrite b s d) = Inl err"
      using assms usage Some
      by (simp add: write_unavailable [where first = first and others = others])
    ultimately show ?thesis
      using usage Some by (auto simp: clientAuth_iff)
  qed
qed

theorem key_usage_rule_witness:
  "ttl_checks_pass (example_request\<lparr>d_certificate := ''server''\<rparr>) \<and>
   parsePEM example_backend (d_certificate (example_request\<lparr>d_certificate := ''server''\<rparr>)) =
     \<lparr>IsCA = False, ExtKeyUsage = [ExtKeyUsageServerAuth]\<rparr> # [\<lparr>IsCA = True, ExtKeyUsage = []\<rparr>] \<and>
   fst (pathCertWrite example_backend empty_storage (example_request\<lparr>d_certificate := ''server''\<rparr>)) =
     Inr (Some (ErrorResponse
       ''non-CA certificates should have TLS client authentication set as an extended key usage'')) \<and>
   ttl_checks_pass (example_request\<lparr>d_certificate := ''ca''\<rparr>) \<and>
   parsePEM example_backend (d_certificate (example_request\<lparr>d_certificate := ''ca''\<rparr>)) =
     \<lparr>IsCA = True, ExtKeyUsage = [ExtKeyUsageServerAuth]\<rparr> # [] \<and>
   is_success (fst (pathCertWrite example_backend empty_storage
     (example_request\<lparr>d_certificate := ''ca''\<rparr>)))"
proof -
  have checks: "ttl_checks_pass (example_request\<lparr>d_certificate := ''server''\<rparr>)"
    by (simp add: ttl_checks_pass_def example_defs Second_def word_sless_alt)
  have parsed: "parsePEM example_backend (d_certificate (example_request\<lparr>d_certificate := ''server''\<rparr>)) =
     \<lparr>IsCA = False, ExtKeyUsage = [ExtKeyUsageServerAuth]\<rparr> # [\<lparr>IsCA = True, ExtKeyUsage = []\<rparr>]"
    by (simp add: example_defs)
  have checks': "ttl_checks_pass (example_request\<lparr>d_certificate := ''ca''\<rparr>)"
    by (simp add: ttl_checks_pass_def example_defs Second_def word_sless_alt)
  have parsed': "parsePEM example_backend (d_certificate (example_request\<lparr>d_certificate := ''ca''\<rparr>)) =
     \<lparr>IsCA = True, ExtKeyUsage = [ExtKeyUsageServerAuth]\<rparr> # []"
    by (simp add: example_defs)
  have "unavailable empty_storage = None"
    by (simp add: empty_storage_def)
  then show ?thesis
    using checks parsed checks' parsed'
      key_usage_rule [OF checks parsed, of empty_storage]
      key_usage_rule [OF checks' parsed', of empty_storage]
    by simp
qed

text \<open>
  Within the seconds that a \<open>Duration\<close> can hold (magnitude at most 9223372036), a
  negative \<open>ttl\<close> or \<open>max_ttl\<close> field is rejected before anything is stored.
\<close>

lemma negative_ttl_rejected_in_range:
  assumes "sint (d_ttl d) < 0" "- 9223372036 \<le> sint (d_ttl d)"
  shows "pathCertWrite b s d = (Inr (Some (ErrorResponse ''ttl cannot be negative'')), s)"
proof -
  have "sint (d_ttl d * Second) = sint (d_ttl d) * 1000000000"
    using assms by (intro sint_seconds) auto
  with assms(1) have "d_ttl d * Second <s 0"
    by (simp add: word_sless_alt)
  then show ?thesis by (rule write_ttl_negative)
qed

lemma negative_max_ttl_rejected_in_range:
  assumes "0 \<le> sint (d_ttl d)" "sint (d_ttl d) \<le> 9223372036"
    "sint (d_max_ttl d) < 0" "- 9223372036 \<le> sint (d_max_ttl d)"
  shows "pathCertWrite b s d = (Inr (Some (ErrorResponse ''max_ttl cannot be negative'')), s)"
proof -
  have "sint (d_ttl d * Second) = sint (d_ttl d) * 1000000000"
    using assms by (intro sint_seconds) auto
  with assms(1) have ttl: "\<not> d_ttl d * Second <s 0"
    by (simp add: word_sless_alt)
  have "sint (d_max_ttl d * Second) = sint (d_max_ttl d) * 1000000000"
    using assms by (intro sint_seconds) auto
  with assms(3) have "d_max_ttl d * Second <s 0"
    by (simp add: word_sless_alt)
  with ttl show ?thesis by (rule write_max_ttl_negative)
qed

text \<open>
  C2. Every \<open>Write\<close> with a negative ttl or a negative maxTTL is to fail with
  "ttl cannot be negative" or "max_ttl cannot be negative" and leave the storage as it
  was. The handler tests the sign only after \<open>time.Duration(ttl) * time.Second\<close>, an
  \<open>int64\<close> product that wraps around: the field value of -9223372037 seconds becomes the
  positive duration of 9223372036709551616 nanoseconds, passes the test, and the entry is
  stored with that TTL.
\<close>

theorem negative_ttl_accepted:
  "sint (d_ttl (example_request\<lparr>d_ttl := - 9223372037\<rparr>)) = - 9223372037 \<and>
   d_ttl (example_request\<lparr>d_ttl := - 9223372037\<rparr>) * Second = 9223372036709551616 \<and>
   pathCertWrite example_backend empty_storage (example_request\<lparr>d_ttl := - 9223372037\<rparr>) =
     (Inr (Some \<lparr>Data = [], Warnings =
        [''Given ttl of 9223372036 seconds is greater than current mount/system default of 3600 seconds'']\<rparr>),
      \<lparr>entries = [''cert/example'' \<mapsto> JSON \<lparr>Name = ''example'', Certificate = ''client'',
         DisplayName = ''example'', Policies = [''default''],
         TTL = 9223372036709551616, MaxTTL = 0\<rparr>],
       unavailable = None\<rparr>)"
  by (simp add: write_unfold Let_def example_defs eval_defs wrapped_ttl)

text \<open>
  C3, as stated, fails where an earlier check answers first: with \<open>ttl = 5\<close> and
  \<open>maxTTL = -1\<close> the maxTTL is not zero and the ttl is greater, and \<open>Write\<close> fails with
  "max_ttl cannot be negative".
\<close>

theorem ttl_over_max_ttl_counterexample:
  "d_max_ttl (example_request\<lparr>d_ttl := 5, d_max_ttl := - 1\<rparr>) \<noteq> 0 \<and>
   sint (d_max_ttl (example_request\<lparr>d_ttl := 5, d_max_ttl := - 1\<rparr>))
     < sint (d_ttl (example_request\<lparr>d_ttl := 5, d_max_ttl := - 1\<rparr>)) \<and>
   d_max_ttl (example_request\<lparr>d_ttl := 5, d_max_ttl := - 1\<rparr>) * Second
     <s d_ttl (example_request\<lparr>d_ttl := 5, d_max_ttl := - 1\<rparr>) * Second \<and>
   pathCertWrite example_backend empty_storage (example_request\<lparr>d_ttl := 5, d_max_ttl := - 1\<rparr>)
     = (Inr (Some (ErrorResponse ''max_ttl cannot be negative'')), empty_storage) \<and>
   fst (pathCertWrite example_backend empty_storage (example_request\<lparr>d_ttl := 5, d_max_ttl := - 1\<rparr>))
     \<noteq> Inr (Some (ErrorResponse ''ttl should be shorter than max_ttl''))"
  by (simp add: write_unfold Let_def example_defs eval_defs)

text \<open>
  C3, amended. For every \<open>Write\<close> with \<open>0 < maxTTL < ttl\<close>, the ttl being at most
  9223372036 seconds (the most a \<open>Duration\<close> holds), \<open>Write\<close> fails with
  "ttl should be shorter than max_ttl" and stores nothing, whatever the system default
  and max TTL ceilings are.
\<close>

theorem ttl_over_max_ttl_rejected:
  assumes "0 < sint (d_max_ttl d)" and "sint (d_max_ttl d) < sint (d_ttl d)"
    and "sint (d_ttl d) \<le> 9223372036"
  shows "pathCertWrite b s d =
           (Inr (Some (ErrorResponse ''ttl should be shorter than max_ttl'')), s)"
proof -
  have ttl: "sint (d_ttl d * Second) = sint (d_ttl d) * 1000000000"
    using assms by (intro sint_seconds) auto
  have max: "sint (d_max_ttl d * Second) = sint (d_max_ttl d) * 1000000000"
    using assms by (intro sint_seconds) auto
  have signs: "\<not> d_ttl d * Second <s 0" "\<not> d_max_ttl d * Second <s 0"
    and over: "d_max_ttl d * Second <s d_ttl d * Second"
    using assms by (simp_all add: word_sless_alt ttl max)
  have nonzero: "d_max_ttl d * Second \<noteq> 0"
  proof
    assume "d_max_ttl d * Second = 0"
    then have "sint (d_max_ttl d * Second) = 0" by simp
    with max assms(1) show False by simp
  qed
  from signs nonzero over show ?thesis by (rule write_ttl_over_max_ttl)
qed

theorem ttl_over_max_ttl_rejected_witness:
  "0 < sint (d_max_ttl (example_request\<lparr>d_ttl := 7200, d_max_ttl := 60\<rparr>)) \<and>
   sint (d_max_ttl (example_request\<lparr>d_ttl := 7200, d_max_ttl := 60\<rparr>))
     < sint (d_ttl (example_request\<lparr>d_ttl := 7200, d_max_ttl := 60\<rparr>)) \<and>
   sint (d_ttl (example_request\<lparr>d_ttl := 7200, d_max_ttl := 60\<rparr>)) \<le> 9223372036 \<and>
   pathCertWrite example_backend empty_storage (example_request\<lparr>d_ttl := 7200, d_max_ttl := 60\<rparr>) =
     (Inr (Some (ErrorResponse ''ttl should be shorter than max_ttl'')), empty_storage)"
proof -
  have h1: "0 < sint (d_max_ttl (example_request\<lparr>d_ttl := 7200, d_max_ttl := 60\<rparr>))"
    and h2: "sint (d_max_ttl (example_request\<lparr>d_ttl := 7200, d_max_ttl := 60\<rparr>))
     < sint (d_ttl (example_request\<lparr>d_ttl := 7200, d_max_ttl := 60\<rparr>))"
    and h3: "sint (d_ttl (example_request\<lparr>d_ttl := 7200, d_max_ttl := 60\<rparr>)) \<le> 9223372036"
    by (simp_all add: example_defs)
  show ?thesis
    using h1 h2 h3 ttl_over_max_ttl_rejected [OF h1 h2 h3, of example_backend empty_storage]
    by simp
qed

end
